theory Spec2Isabelle
  imports Main "HOL-Library.Sublist"
begin

section \<open>Strings and exceptions\<close>

text \<open>
  A Python \<open>str\<close> is a sequence of Unicode code points, so it is modelled as a list of
  code points (\<open>nat\<close>). The Korean message fragments of the source are written by their
  code points; for instance the skip marker of \<open>batch_analyzer.py\<close> is U+C2A4 U+D0B5.
\<close>

type_synonym pystr = "nat list"

text \<open>The characters \<open>str.strip()\<close> removes: those for which \<open>str.isspace()\<close> holds.\<close>

definition is_space :: "nat \<Rightarrow> bool" where
  "is_space c =
     ((9 \<le> c \<and> c \<le> 13) \<or> (28 \<le> c \<and> c \<le> 32) \<or> c = 133 \<or> c = 160 \<or> c = 5760 \<or>
      (8192 \<le> c \<and> c \<le> 8202) \<or> c = 8232 \<or> c = 8233 \<or> c = 8239 \<or> c = 8287 \<or> c = 12288)"

definition strip :: "pystr \<Rightarrow> pystr" where
  "strip s = rev (dropWhile is_space (rev (dropWhile is_space s)))"

text \<open>\<open>sub in s\<close> for strings: \<open>sub\<close> occurs in \<open>s\<close> as a contiguous block.\<close>

fun str_startswith :: "pystr \<Rightarrow> pystr \<Rightarrow> bool" where
  "str_startswith s [] = True"
| "str_startswith [] (p # ps) = False"
| "str_startswith (c # cs) (p # ps) = (c = p \<and> str_startswith cs ps)"

fun str_contains :: "pystr \<Rightarrow> pystr \<Rightarrow> bool" where
  "str_contains sub [] = (sub = [])"
| "str_contains sub (c # cs) = (str_startswith (c # cs) sub \<or> str_contains sub cs)"

text \<open>\<open>str(n)\<close> for an integer: its decimal digits, with a minus sign when negative.\<close>

fun str_nat :: "nat \<Rightarrow> pystr" where
  "str_nat n = (if n < 10 then [48 + n] else str_nat (n div 10) @ [48 + n mod 10])"

declare str_nat.simps [simp del]

definition str_int :: "int \<Rightarrow> pystr" where
  "str_int i = (if i < 0 then 45 # str_nat (nat (- i)) else str_nat (nat i))"

text \<open>
  The exception classes the two modules tell apart. \<open>APIConnectionError\<close> is a subclass
  of \<open>APIClientError\<close>; \<open>OtherException\<close> is any other subclass of \<open>Exception\<close> (an error
  of the provider's SDK, a bug in a collaborator). The argument is \<open>str(e)\<close>.
\<close>

datatype exn = APIClientError pystr | APIConnectionError pystr | OtherException pystr

fun exn_str :: "exn \<Rightarrow> pystr" where
  "exn_str (APIClientError m) = m"
| "exn_str (APIConnectionError m) = m"
| "exn_str (OtherException m) = m"

text \<open>\<open>isinstance(e, APIClientError)\<close>, the test of \<open>except APIClientError\<close>.\<close>

fun is_api_client_error :: "exn \<Rightarrow> bool" where
  "is_api_client_error (APIClientError m) = True"
| "is_api_client_error (APIConnectionError m) = True"
| "is_api_client_error (OtherException m) = False"

section \<open>The LLM client (\<open>api_client.py\<close>)\<close>

text \<open>
  The provider's SDK is the transport. Its behaviour is a parameter: each request reads
  and changes a world state \<open>'w\<close> (the network, the provider, a stub's call counter).

  A streaming request delivers the content of the chunks that arrive, in order, and then
  either ends or raises; a request that cannot even be opened is the outcome with no chunk
  and an error. A non-streaming request returns the response text or raises.
\<close>

type_synonym stream_outcome = "pystr list \<times> exn option"

datatype provider = OpenAI | Anthropic

record 'w api_client =
  provider :: provider
  stream_request :: "pystr \<Rightarrow> 'w \<Rightarrow> stream_outcome \<times> 'w"
  complete_request :: "pystr \<Rightarrow> 'w \<Rightarrow> (exn + pystr) \<times> 'w"

text \<open>
  What the client does that a caller or a test can observe: the log line
  "Sending ... request" written when a request goes to the transport, the warning
  "Attempt k+1/n failed: e" of the retry loop, and \<open>time.sleep\<close>.
\<close>

datatype client_event = SendRequest | AttemptFailed nat exn | Sleep nat

text \<open>
  A Python generator object: calling a generator function runs none of its body. The body
  runs when the caller iterates; \<open>resume\<close> is the whole iteration, giving the chunks
  yielded and the exception that ended it, if any.
\<close>

datatype 'w generator =
  Generator (resume: "'w \<Rightarrow> stream_outcome \<times> client_event list \<times> 'w")

text \<open>
  \<open>_stream_response\<close> has a \<open>yield\<close> in its body, so it is a generator function: the
  request, the loop over the chunks and the \<open>except Exception: ... raise\<close> all belong to
  the generator's body. The OpenAI branch yields only the chunks with a non-empty content.
\<close>

definition stream_response :: "'w api_client \<Rightarrow> pystr \<Rightarrow> 'w generator" where
  "stream_response cl prompt =
     Generator (\<lambda>w.
       (case stream_request cl prompt w of
          ((chunks, err), w') \<Rightarrow>
            ((case provider cl of
                OpenAI \<Rightarrow> filter (\<lambda>c. c \<noteq> []) chunks
              | Anthropic \<Rightarrow> chunks,
              err), [SendRequest], w')))"

text \<open>\<open>_get_response\<close>: one blocking request; an exception is logged and raised again.\<close>

definition get_response ::
  "'w api_client \<Rightarrow> pystr \<Rightarrow> 'w \<Rightarrow> (exn + pystr) \<times> client_event list \<times> 'w" where
  "get_response cl prompt w =
     (case complete_request cl prompt w of (r, w') \<Rightarrow> (r, [SendRequest], w'))"

text \<open>What \<open>analyze_code\<close> returns: a string, a generator, or \<open>None\<close> when the loop body never ran.\<close>

datatype 'w analyze_value = Text pystr | Stream "'w generator" | NoValue

text \<open>
  The message of the final \<open>APIConnectionError\<close>:
  "Failed to get LLM response after \<open>max_retries\<close> attempts: \<open>e\<close>".
\<close>

definition failure_message :: "int \<Rightarrow> exn \<Rightarrow> pystr" where
  "failure_message max_retries e =
     [70, 97, 105, 108, 101, 100, 32, 116, 111, 32, 103, 101, 116, 32, 76, 76, 77, 32, 114,
      101, 115, 112, 111, 110, 115, 101, 32, 97, 102, 116, 101, 114, 32]
     @ str_int max_retries
     @ [32, 97, 116, 116, 101, 109, 112, 116, 115, 58, 32]
     @ exn_str e"

text \<open>
  The loop \<open>for attempt in range(max_retries)\<close> of \<open>analyze_code\<close>, over the attempts that
  remain. In streaming mode the \<open>try\<close> body only builds the generator and returns it.
\<close>

fun analyze_code_loop ::
  "'w api_client \<Rightarrow> pystr \<Rightarrow> bool \<Rightarrow> int \<Rightarrow> nat list \<Rightarrow> client_event list \<Rightarrow> 'w \<Rightarrow>
     (exn + 'w analyze_value) \<times> client_event list \<times> 'w" where
  "analyze_code_loop cl prompt stream max_retries [] tr w = (Inr NoValue, tr, w)"
| "analyze_code_loop cl prompt stream max_retries (attempt # rest) tr w =
     (if stream then (Inr (Stream (stream_response cl prompt)), tr, w)
      else
        (case get_response cl prompt w of
           (Inr text, evs, w') \<Rightarrow> (Inr (Text text), tr @ evs, w')
         | (Inl e, evs, w') \<Rightarrow>
             (if int attempt < max_retries - 1
              then analyze_code_loop cl prompt stream max_retries rest
                     (tr @ evs @ [AttemptFailed attempt e, Sleep (2 ^ attempt)]) w'
              else (Inl (APIConnectionError (failure_message max_retries e)),
                    tr @ evs @ [AttemptFailed attempt e], w'))))"

definition analyze_code ::
  "'w api_client \<Rightarrow> pystr \<Rightarrow> bool \<Rightarrow> int \<Rightarrow> 'w \<Rightarrow>
     (exn + 'w analyze_value) \<times> client_event list \<times> 'w" where
  "analyze_code cl prompt stream max_retries w =
     analyze_code_loop cl prompt stream max_retries [0..<nat max_retries] [] w"

text \<open>\<open>str(e)\<close> of the \<open>TypeError\<close> of iterating \<open>None\<close>: "'NoneType' object is not iterable".\<close>

definition not_iterable_message :: pystr where
  "not_iterable_message =
     [39, 78, 111, 110, 101, 84, 121, 112, 101, 39, 32, 111, 98, 106, 101, 99, 116, 32, 105,
      115, 32, 110, 111, 116, 32, 105, 116, 101, 114, 97, 98, 108, 101]"

text \<open>
  The caller's \<open>for token in client.analyze_code(...)\<close>: the call, then the iteration of
  what it returned. An exception of either step reaches the caller.
\<close>

definition drain ::
  "'w analyze_value \<Rightarrow> 'w \<Rightarrow> stream_outcome \<times> client_event list \<times> 'w" where
  "drain v w =
     (case v of
        Text s \<Rightarrow> ((map (\<lambda>c. [c]) s, None), [], w)
      | Stream g \<Rightarrow> resume g w
      | NoValue \<Rightarrow> (([], Some (OtherException not_iterable_message)), [], w))"

section \<open>The batch analyzer (\<open>batch_analyzer.py\<close>)\<close>

text \<open>
  \<open>FileAnalysisResult\<close> and \<open>BatchAnalysisResult\<close>, field by field. The wall-clock fields
  (\<open>analysis_time\<close>, \<open>total_time\<close>, \<open>start_time\<close>, \<open>end_time\<close>) are readings of the system
  clock and are left out; the fields a constructor call does not pass keep the defaults of
  the dataclass (the empty string, zero).
\<close>

record file_analysis_result =
  file_path :: pystr
  file_name :: pystr
  success :: bool
  original_code :: pystr
  improved_code :: pystr
  report_markdown :: pystr
  error_message :: pystr
  retry_count :: nat

record batch_analysis_result =
  total_files :: nat
  success_count :: nat
  failure_count :: nat
  skipped_count :: nat
  results :: "file_analysis_result list"

text \<open>
  The collaborators of the analyzer are parameters: the file system (\<open>open\<close> and \<open>read\<close>
  with \<open>encoding='utf-8'\<close>), \<open>Path(file_path).name\<close>, the prompt builder, the client's
  \<open>analyze_code(prompt, stream=True)\<close> and the report generator. Each call reads and changes
  the world \<open>'w\<close> and may raise. The client returns something to iterate; \<open>token_source\<close>
  is that iteration as a whole: the tokens it yields and the exception that ends it, if
  any. The categories, the output format and the model name are constants of the analyzer.
\<close>

datatype read_outcome = ReadOk pystr | ReadUnicodeDecodeError | ReadException pystr

type_synonym 'w token_source = "'w \<Rightarrow> stream_outcome \<times> 'w"

record 'w collaborators =
  read_file :: "pystr \<Rightarrow> 'w \<Rightarrow> read_outcome \<times> 'w"
  path_name :: "pystr \<Rightarrow> pystr"
  system_prompt :: pystr
  build_review_prompt :: "pystr \<Rightarrow> 'w \<Rightarrow> (exn + pystr) \<times> 'w"
  client_analyze_code :: "pystr \<Rightarrow> 'w \<Rightarrow> (exn + 'w token_source) \<times> 'w"
  generate_report :: "pystr \<Rightarrow> pystr \<Rightarrow> 'w \<Rightarrow> (exn + pystr) \<times> 'w"

text \<open>
  What a run does that its caller, a stub or a test can observe, in order: the calls of the
  two callbacks, the calls of the collaborators, the two \<open>print\<close> lines of the retry loop
  (with the 0-based attempt and \<open>str(e)\<close>), the \<open>print\<close> of a cancelled run and
  \<open>time.sleep\<close>.
\<close>

datatype event =
    CancelCheck bool
  | PrintCancelled nat nat
  | Progress nat nat pystr
  | ReadFile pystr
  | BuildPrompt pystr
  | AnalyzeCall pystr
  | GenerateReport pystr pystr
  | PrintAnalysisFailed nat pystr
  | PrintUnexpected nat pystr
  | SleepSeconds nat

definition MAX_RETRIES :: nat where
  "MAX_RETRIES = 3"

text \<open>The marker the tally looks for, and the four error messages of the source.\<close>

definition skip_marker :: pystr where
  "skip_marker = [49828, 53429]"

definition empty_file_message :: pystr where
  "empty_file_message = [48712, 32, 54028, 51068, 32, 40, 49828, 53429, 41]"

definition encoding_error_message :: pystr where
  "encoding_error_message =
     [85, 84, 70, 45, 56, 32, 51064, 53076, 46377, 32, 50724, 47448, 32, 40, 49828, 53429, 41]"

definition read_failure_message :: "pystr \<Rightarrow> pystr" where
  "read_failure_message e =
     [54028, 51068, 32, 51069, 44592, 32, 49892, 54056, 58, 32] @ e @ [32, 40, 49828, 53429, 41]"

definition exhausted_prefix :: pystr where
  "exhausted_prefix =
     [76, 76, 77, 32, 48516, 49437, 32, 49892, 54056, 32, 40] @ str_int (int MAX_RETRIES)
     @ [54924, 32, 51116, 49884, 46020, 41, 58, 32]"

text \<open>\<open>str(last_error)\<close>; \<open>last_error\<close> starts as \<open>None\<close>.\<close>

definition str_last_error :: "exn option \<Rightarrow> pystr" where
  "str_last_error le = (case le of None \<Rightarrow> [78, 111, 110, 101] | Some e \<Rightarrow> exn_str e)"

definition exhausted_message :: "exn option \<Rightarrow> pystr" where
  "exhausted_message le = exhausted_prefix @ str_last_error le"

text \<open>The result of a file that is not analysed: only the message varies.\<close>

definition skipped_result :: "pystr \<Rightarrow> pystr \<Rightarrow> pystr \<Rightarrow> file_analysis_result" where
  "skipped_result fp fname msg =
     \<lparr>file_path = fp, file_name = fname, success = False, original_code = [],
      improved_code = [], report_markdown = [], error_message = msg, retry_count = 0\<rparr>"

text \<open>
  \<open>improved_code = ""; for token in self.api_client.analyze_code(prompt=full_prompt,
  stream=True): improved_code += token\<close>. An exception of the call or of the iteration
  ends the statement; the tokens received before it are lost with the attempt.
\<close>

definition collect_tokens :: "'w collaborators \<Rightarrow> pystr \<Rightarrow> 'w \<Rightarrow> (exn + pystr) \<times> 'w" where
  "collect_tokens env full_prompt w =
     (case client_analyze_code env full_prompt w of
        (Inl e, w1) \<Rightarrow> (Inl e, w1)
      | (Inr tokens, w1) \<Rightarrow>
          (case tokens w1 of
             ((ts, Some e), w2) \<Rightarrow> (Inl e, w2)
           | ((ts, None), w2) \<Rightarrow> (Inr (concat ts), w2)))"

text \<open>
  The body of the \<open>try\<close> of one attempt: build the prompt, call the client and collect
  the tokens, build the report. The first exception ends the attempt.
\<close>

definition attempt_body ::
  "'w collaborators \<Rightarrow> pystr \<Rightarrow> 'w \<Rightarrow> (exn + pystr \<times> pystr) \<times> event list \<times> 'w" where
  "attempt_body env original w =
     (case build_review_prompt env original w of
        (Inl e, w1) \<Rightarrow> (Inl e, [BuildPrompt original], w1)
      | (Inr prompt, w1) \<Rightarrow>
          (let full_prompt = system_prompt env @ [10, 10] @ prompt in
           case collect_tokens env full_prompt w1 of
             (Inl e, w2) \<Rightarrow> (Inl e, [BuildPrompt original, AnalyzeCall full_prompt], w2)
           | (Inr improved, w2) \<Rightarrow>
               (case generate_report env original improved w2 of
                  (Inl e, w3) \<Rightarrow>
                    (Inl e, [BuildPrompt original, AnalyzeCall full_prompt,
                             GenerateReport original improved], w3)
                | (Inr report, w3) \<Rightarrow>
                    (Inr (improved, report),
                     [BuildPrompt original, AnalyzeCall full_prompt,
                      GenerateReport original improved], w3))))"

text \<open>
  What the two \<open>except\<close> clauses do after counting the retry and keeping the error: print
  (a different line each), and sleep for a second unless this was the last attempt.
\<close>

definition except_events :: "nat \<Rightarrow> exn \<Rightarrow> event list" where
  "except_events attempt e =
     (if is_api_client_error e then [PrintAnalysisFailed attempt (exn_str e)]
      else [PrintUnexpected attempt (exn_str e)])
     @ (if attempt < MAX_RETRIES - 1 then [SleepSeconds 1] else [])"

text \<open>
  The loop \<open>for attempt in range(self.MAX_RETRIES)\<close> over the attempts that remain, with
  \<open>retry_count\<close> and \<open>last_error\<close>; after the loop, the result of a file that failed.
\<close>

fun retry_loop ::
  "'w collaborators \<Rightarrow> pystr \<Rightarrow> pystr \<Rightarrow> pystr \<Rightarrow> nat list \<Rightarrow> nat \<Rightarrow> exn option \<Rightarrow>
     event list \<Rightarrow> 'w \<Rightarrow> file_analysis_result \<times> event list \<times> 'w" where
  "retry_loop env fp fname original [] rc le tr w =
     (\<lparr>file_path = fp, file_name = fname, success = False, original_code = original,
       improved_code = [], report_markdown = [], error_message = exhausted_message le,
       retry_count = rc\<rparr>, tr, w)"
| "retry_loop env fp fname original (attempt # rest) rc le tr w =
     (case attempt_body env original w of
        (Inr (improved, report), evs, w') \<Rightarrow>
          (\<lparr>file_path = fp, file_name = fname, success = True, original_code = original,
            improved_code = improved, report_markdown = report, error_message = [],
            retry_count = rc\<rparr>, tr @ evs, w')
      | (Inl e, evs, w') \<Rightarrow>
          retry_loop env fp fname original rest (Suc rc) (Some e)
            (tr @ evs @ except_events attempt e) w')"

text \<open>\<open>_analyze_single_file\<close>: read the file, then analyse it with retries.\<close>

definition analyze_single_file ::
  "'w collaborators \<Rightarrow> pystr \<Rightarrow> 'w \<Rightarrow> file_analysis_result \<times> event list \<times> 'w" where
  "analyze_single_file env fp w =
     (let fname = path_name env fp in
      case read_file env fp w of
        (ReadUnicodeDecodeError, w1) \<Rightarrow>
          (skipped_result fp fname encoding_error_message, [ReadFile fp], w1)
      | (ReadException e, w1) \<Rightarrow>
          (skipped_result fp fname (read_failure_message e), [ReadFile fp], w1)
      | (ReadOk content, w1) \<Rightarrow>
          (let original = strip content in
           if original = [] then (skipped_result fp fname empty_file_message, [ReadFile fp], w1)
           else retry_loop env fp fname original [0..<MAX_RETRIES] 0 None [ReadFile fp] w1))"

text \<open>
  The tally of \<open>analyze_files\<close>: \<open>if result.success\<close>, \<open>elif result.error_message and
  marker in result.error_message\<close>, \<open>else\<close>.
\<close>

datatype tally = Succeeded | Skipped | Failed

definition classify :: "file_analysis_result \<Rightarrow> tally" where
  "classify r =
     (if success r then Succeeded
      else if error_message r \<noteq> [] \<and> str_contains skip_marker (error_message r) then Skipped
      else Failed)"

text \<open>
  The two optional callbacks act on the caller's state \<open>'c\<close> (a progress bar, a flag the
  user sets); the analyzer passes them no reference to its collaborators. They are
  expected to return: a callback that raises ends the run with its exception, and no
  summary is returned.
\<close>

type_synonym 'c progress_callback = "nat \<Rightarrow> nat \<Rightarrow> pystr \<Rightarrow> 'c \<Rightarrow> 'c"

type_synonym 'c is_cancelled_callback = "'c \<Rightarrow> bool \<times> 'c"

text \<open>The local variables of \<open>analyze_files\<close> that the loop updates.\<close>

record tallies =
  acc_results :: "file_analysis_result list"
  acc_success :: nat
  acc_failure :: nat
  acc_skipped :: nat

definition count_result :: "file_analysis_result \<Rightarrow> tallies \<Rightarrow> tallies" where
  "count_result r t =
     (let t' = t\<lparr>acc_results := acc_results t @ [r]\<rparr> in
      case classify r of
        Succeeded \<Rightarrow> t'\<lparr>acc_success := acc_success t' + 1\<rparr>
      | Skipped \<Rightarrow> t'\<lparr>acc_skipped := acc_skipped t' + 1\<rparr>
      | Failed \<Rightarrow> t'\<lparr>acc_failure := acc_failure t' + 1\<rparr>)"

text \<open>
  \<open>if is_cancelled_callback and is_cancelled_callback()\<close>: a callback that is \<open>None\<close> is not
  called. \<open>if progress_callback: progress_callback(i, len(file_paths), file_name)\<close>.
\<close>

definition check_cancelled ::
  "'c is_cancelled_callback option \<Rightarrow> 'c \<Rightarrow> bool \<times> event list \<times> 'c" where
  "check_cancelled ic c =
     (case ic of
        None \<Rightarrow> (False, [], c)
      | Some f \<Rightarrow> (case f c of (b, c') \<Rightarrow> (b, [CancelCheck b], c')))"

definition notify_progress ::
  "'c progress_callback option \<Rightarrow> nat \<Rightarrow> nat \<Rightarrow> pystr \<Rightarrow> 'c \<Rightarrow> event list \<times> 'c" where
  "notify_progress pc i len fname c =
     (case pc of
        None \<Rightarrow> ([], c)
      | Some g \<Rightarrow> ([Progress i len fname], g i len fname c))"

text \<open>
  The loop \<open>for i, file_path in enumerate(file_paths)\<close> over the pairs that remain;
  \<open>len\<close> is \<open>len(file_paths)\<close>.
\<close>

fun files_loop ::
  "'w collaborators \<Rightarrow> 'c progress_callback option \<Rightarrow> 'c is_cancelled_callback option \<Rightarrow>
     nat \<Rightarrow> (nat \<times> pystr) list \<Rightarrow> tallies \<Rightarrow> event list \<Rightarrow> 'c \<Rightarrow> 'w \<Rightarrow>
     tallies \<times> event list \<times> 'c \<times> 'w" where
  "files_loop env pc ic len [] t tr c w = (t, tr, c, w)"
| "files_loop env pc ic len ((i, fp) # rest) t tr c w =
     (case check_cancelled ic c of
        (cancelled, evs1, c1) \<Rightarrow>
          if cancelled then (t, tr @ evs1 @ [PrintCancelled i len], c1, w)
          else
            (case notify_progress pc i len (path_name env fp) c1 of
               (evs2, c2) \<Rightarrow>
                 (case analyze_single_file env fp w of
                    (r, evs3, w') \<Rightarrow>
                      files_loop env pc ic len rest (count_result r t)
                        (tr @ evs1 @ evs2 @ evs3) c2 w')))"

definition analyze_files ::
  "'w collaborators \<Rightarrow> pystr list \<Rightarrow> 'c progress_callback option \<Rightarrow>
     'c is_cancelled_callback option \<Rightarrow> 'c \<Rightarrow> 'w \<Rightarrow>
     batch_analysis_result \<times> event list \<times> 'c \<times> 'w" where
  "analyze_files env file_paths pc ic c w =
     (case files_loop env pc ic (length file_paths) (enumerate 0 file_paths)
             \<lparr>acc_results = [], acc_success = 0, acc_failure = 0, acc_skipped = 0\<rparr> [] c w of
        (t, tr, c', w') \<Rightarrow>
          (\<lparr>total_files = length file_paths, success_count = acc_success t,
            failure_count = acc_failure t, skipped_count = acc_skipped t,
            results = acc_results t\<rparr>, tr, c', w'))"

section \<open>Stub collaborators\<close>

text \<open>
  The stubs of the test suite, for running the model on concrete inputs. The world is the
  number of calls of the client so far; the file system and the behaviour of the client at
  each call are parameters. The path is used as the file name, the prompt is the code
  itself, and the report is a fixed string.
\<close>

definition stub_collaborators ::
  "(pystr \<Rightarrow> read_outcome) \<Rightarrow> (nat \<Rightarrow> exn + stream_outcome) \<Rightarrow> nat collaborators" where
  "stub_collaborators files behaviour =
     \<lparr>read_file = (\<lambda>fp w. (files fp, w)),
      path_name = (\<lambda>fp. fp),
      system_prompt = [83],
      build_review_prompt = (\<lambda>code w. (Inr code, w)),
      client_analyze_code =
        (\<lambda>prompt w. (case behaviour w of Inl e \<Rightarrow> Inl e
                                        | Inr outcome \<Rightarrow> Inr (\<lambda>w'. (outcome, w')), Suc w)),
      generate_report = (\<lambda>original improved w. (Inr [35], w))\<rparr>"

text \<open>
  A file system: the file \<open>B\<close> holds only white space, \<open>C\<close> is not valid UTF-8,
  \<open>D\<close> cannot be opened, and any other file holds its own name followed by a pair of
  braces and a newline.
\<close>

definition stub_files :: "pystr \<Rightarrow> read_outcome" where
  "stub_files fp =
     (if fp = [66] then ReadOk [32, 10]
      else if fp = [67] then ReadUnicodeDecodeError
      else if fp = [68] then ReadException [110, 111]
      else ReadOk (fp @ [123, 125, 10]))"

text \<open>A client that streams the two tokens \<open>IM\<close> and \<open>P\<close> at every call.\<close>

definition always_improved :: "nat \<Rightarrow> exn + stream_outcome" where
  "always_improved k = Inr ([[73, 77], [80]], None)"

text \<open>A client that answers every call with a stream that ends at once, without a token.\<close>

definition empty_stream :: "nat \<Rightarrow> exn + stream_outcome" where
  "empty_stream k = Inr ([], None)"

text \<open>A client whose every call raises \<open>e\<close>.\<close>

definition always_fails :: "exn \<Rightarrow> nat \<Rightarrow> exn + stream_outcome" where
  "always_fails e k = Inl e"

text \<open>
  An \<open>APIClientError\<close> whose text happens to hold the marker: a provider's message saying,
  in Korean, that the request was skipped (U+C694 U+CCAD, a space, U+C2A4 U+D0B5).
\<close>

definition skip_worded_error :: exn where
  "skip_worded_error = APIClientError [50836, 52397, 32, 49828, 53429]"

text \<open>
  Two callbacks of a caller that keeps the list of the progress notifications it received:
  \<open>record_progress\<close> appends its arguments, \<open>never_cancelled\<close> always answers no, and
  \<open>cancelled_after k\<close> answers yes once \<open>k\<close> notifications have been received.
\<close>

definition record_progress :: "(nat \<times> nat \<times> pystr) list progress_callback" where
  "record_progress i n fname calls = calls @ [(i, n, fname)]"

definition never_cancelled :: "(nat \<times> nat \<times> pystr) list is_cancelled_callback" where
  "never_cancelled calls = (False, calls)"

definition cancelled_after :: "nat \<Rightarrow> (nat \<times> nat \<times> pystr) list is_cancelled_callback" where
  "cancelled_after k calls = (k \<le> length calls, calls)"

definition five_files :: "pystr list" where
  "five_files = [[65], [69], [70], [71], [72]]"



text \<open>
  A prompt builder with a bug: every call raises \<open>e\<close>. The text of the bug used below is
  "bug".
\<close>

definition broken_builder :: "exn \<Rightarrow> nat collaborators" where
  "broken_builder e =
     (stub_collaborators stub_files always_improved)
       \<lparr>build_review_prompt := (\<lambda>code w. (Inl e, w))\<rparr>"


text \<open>
  A transport that is down: every request raises \<open>e\<close>, streaming or not. The world is the
  number of requests sent. The error used below is an SDK timeout, "timed out", which is
  not an \<open>APIClientError\<close>.
\<close>

definition dead_client :: "exn \<Rightarrow> nat api_client" where
  "dead_client e =
     \<lparr>provider = OpenAI,
      stream_request = (\<lambda>prompt w. (([], Some e), Suc w)),
      complete_request = (\<lambda>prompt w. (Inl e, Suc w))\<rparr>"

definition timed_out :: exn where
  "timed_out = OtherException [116, 105, 109, 101, 100, 32, 111, 117, 116]"

text \<open>
  The client of \<open>api_client.py\<close> as the collaborator of the analyzer:
  \<open>self.api_client.analyze_code(prompt=full_prompt, stream=True)\<close> with the default
  \<open>max_retries=3\<close>, and the iteration of what it returns. \<open>batch_on_dead_client\<close> is the
  analyzer of the stubs with that client on the transport that is down.
\<close>

definition client_of ::
  "'w api_client \<Rightarrow> pystr \<Rightarrow> 'w \<Rightarrow> (exn + 'w token_source) \<times> 'w" where
  "client_of cl prompt w =
     (case analyze_code cl prompt True 3 w of
        (Inl e, evs, w') \<Rightarrow> (Inl e, w')
      | (Inr v, evs, w') \<Rightarrow>
          (Inr (\<lambda>w1. case drain v w1 of (outcome, evs1, w2) \<Rightarrow> (outcome, w2)), w'))"

definition batch_on_dead_client :: "nat collaborators" where
  "batch_on_dead_client =
     (stub_collaborators stub_files always_improved)
       \<lparr>client_analyze_code := client_of (dead_client timed_out)\<rparr>"


text \<open>
  A transport that fails its first \<open>j\<close> requests and answers "ok" from then on; the
  error of request number \<open>k\<close> is an SDK error whose text is the digit \<open>k\<close>. The world
  is the number of requests sent.
\<close>

definition flaky_client :: "nat \<Rightarrow> nat api_client" where
  "flaky_client j =
     \<lparr>provider = OpenAI,
      stream_request =
        (\<lambda>prompt w. (if w < j then ([], Some (OtherException [48 + w])) else ([[111, 107]], None),
                      Suc w)),
      complete_request =
        (\<lambda>prompt w. (if w < j then Inl (OtherException [48 + w]) else Inr [111, 107], Suc w))\<rparr>"

section \<open>Notions used by the properties\<close>

text \<open>The part of the invariant of \<open>FileAnalysisResult\<close> that relates \<open>success\<close> and \<open>error_message\<close>.\<close>

definition result_invariant :: "file_analysis_result \<Rightarrow> bool" where
  "result_invariant r = (if success r then error_message r = [] else error_message r \<noteq> [])"

text \<open>A result that is not a success and whose message holds the marker.\<close>

definition counted_as_skip :: "file_analysis_result \<Rightarrow> bool" where
  "counted_as_skip r = (\<not> success r \<and> str_contains skip_marker (error_message r))"

text \<open>
  The file cannot be analysed: its content is empty once stripped, it is not valid
  UTF-8, or reading it raises.
\<close>

definition load_fails :: "'w collaborators \<Rightarrow> pystr \<Rightarrow> 'w \<Rightarrow> bool" where
  "load_fails env fp w =
     (case fst (read_file env fp w) of
        ReadOk content \<Rightarrow> strip content = []
      | ReadUnicodeDecodeError \<Rightarrow> True
      | ReadException e \<Rightarrow> True)"

text \<open>
  The events of the loop of \<open>analyze_files\<close> itself, as opposed to those of
  \<open>_analyze_single_file\<close>; and what the loop does at the start of an item that it
  processes: one cancellation check that answers no, then the progress notification when
  a progress callback is given.
\<close>

fun callback_event :: "event \<Rightarrow> bool" where
  "callback_event (CancelCheck b) = True"
| "callback_event (PrintCancelled i n) = True"
| "callback_event (Progress i n fname) = True"
| "callback_event e = False"

definition item_header :: "'c progress_callback option \<Rightarrow> nat \<Rightarrow> nat \<Rightarrow> pystr \<Rightarrow> event list" where
  "item_header pc i len fname =
     CancelCheck False # (case pc of None \<Rightarrow> [] | Some g \<Rightarrow> [Progress i len fname])"





text \<open>
  The collaborators of \<open>env\<close> with every exception they raise replaced by its image under
  \<open>f\<close>: with an \<open>f\<close> that keeps the text, the same failures under other exception
  classes. \<open>as_unexpected\<close> turns every exception into one that is not an
  \<open>APIClientError\<close>. \<open>forget_class\<close> identifies the two \<open>print\<close> lines of the retry loop.
\<close>

definition relabel_tokens :: "(exn \<Rightarrow> exn) \<Rightarrow> 'w token_source \<Rightarrow> 'w token_source" where
  "relabel_tokens f tokens =
     (\<lambda>w. case tokens w of ((ts, err), w') \<Rightarrow> ((ts, map_option f err), w'))"

definition relabel :: "(exn \<Rightarrow> exn) \<Rightarrow> 'w collaborators \<Rightarrow> 'w collaborators" where
  "relabel f env =
     env\<lparr>build_review_prompt :=
           (\<lambda>code w. case build_review_prompt env code w of (res, w') \<Rightarrow> (map_sum f id res, w')),
         client_analyze_code :=
           (\<lambda>p w. case client_analyze_code env p w of
                     (res, w') \<Rightarrow> (map_sum f (relabel_tokens f) res, w')),
         generate_report :=
           (\<lambda>original improved w.
              case generate_report env original improved w of
                (res, w') \<Rightarrow> (map_sum f id res, w'))\<rparr>"



text \<open>
  The retry policy of the client in the spec's words: each failed attempt \<open>k\<close> (0-based)
  sends a request, sees it fail, and is followed by a wait of \<open>2 ^ k\<close> seconds unless it
  was the last of the \<open>n\<close> attempts allowed. \<open>backoff_schedule n k es\<close> is what the client
  does over the failed attempts \<open>k\<close>, \<open>k + 1\<close>, ... whose errors are \<open>es\<close>.
\<close>

fun backoff_schedule :: "int \<Rightarrow> nat \<Rightarrow> exn list \<Rightarrow> client_event list" where
  "backoff_schedule n k [] = []"
| "backoff_schedule n k (e # es) =
     [SendRequest, AttemptFailed k e] @ (if int k < n - 1 then [Sleep (2 ^ k)] else [])
     @ backoff_schedule n (Suc k) es"




section \<open>Auxiliary facts\<close>

subsection \<open>Strings and messages\<close>


lemma str_startswith_iff: "str_startswith s p \<longleftrightarrow> prefix p s"
  by (induction s p rule: str_startswith.induct) auto

lemma str_contains_iff: "str_contains sub s \<longleftrightarrow> sublist sub s"
  by (induction s) (auto simp: str_startswith_iff sublist_Cons_right)

lemma str_contains_decompose: "str_contains sub s \<longleftrightarrow> (\<exists>pre post. s = pre @ sub @ post)"
  by (simp add: str_contains_iff sublist_def)

lemma str_int_3: "str_int (int MAX_RETRIES) = [51]"
  by (simp add: str_int_def MAX_RETRIES_def str_nat.simps)

lemma exhausted_prefix_eval:
  "exhausted_prefix =
     [76, 76, 77, 32, 48516, 49437, 32, 49892, 54056, 32, 40, 51,
      54924, 32, 51116, 49884, 46020, 41, 58, 32]"
  by (simp add: exhausted_prefix_def str_int_3)

lemma exhausted_message_nonempty [simp]:
  "exhausted_message le \<noteq> []" "[] \<noteq> exhausted_message le"
  by (simp_all add: exhausted_message_def exhausted_prefix_eval)

lemma contains_exhausted_message:
  "str_contains skip_marker (exhausted_message le) = str_contains skip_marker (str_last_error le)"
  by (simp add: exhausted_message_def exhausted_prefix_eval skip_marker_def)

lemma skip_messages_contain_marker:
  "str_contains skip_marker empty_file_message"
  "str_contains skip_marker encoding_error_message"
  "str_contains skip_marker (read_failure_message e)"
  by (simp_all add: str_contains_decompose skip_marker_def empty_file_message_def
      encoding_error_message_def read_failure_message_def)
    (rule exI [of _ "[48712, 32, 54028, 51068, 32, 40]"], simp,
     rule exI [of _ "[85, 84, 70, 45, 56, 32, 51064, 53076, 46377, 32, 50724, 47448, 32, 40]"], simp,
     rule exI [of _ "[54028, 51068, 32, 51069, 44592, 32, 49892, 54056, 58, 32] @ e @ [32, 40]"], simp)


subsection \<open>One file\<close>

lemma retry_loop_fields:
  "retry_loop env fp fname original attempts rc le tr w = (r, tr', w') \<Longrightarrow>
   file_path r = fp \<and> file_name r = fname \<and> original_code r = original \<and>
   (success r \<longrightarrow> error_message r = []) \<and>
   (\<not> success r \<longrightarrow> (\<exists>le'. error_message r = exhausted_message le') \<and>
                    retry_count r = rc + length attempts \<and> improved_code r = [] \<and>
                    report_markdown r = [])"
proof (induction attempts arbitrary: rc le tr w)
  case Nil
  then show ?case by auto
next
  case (Cons a attempts)
  show ?case
  proof (cases "attempt_body env original w")
    case (fields res evs w1)
    show ?thesis
    proof (cases res)
      case (Inl e)
      with fields Cons.prems
      have "retry_loop env fp fname original attempts (Suc rc) (Some e)
              (tr @ evs @ except_events a e) w1 = (r, tr', w')"
        by simp
      from Cons.IH [OF this] show ?thesis by simp
    next
      case (Inr ok)
      with fields Cons.prems show ?thesis by (auto split: prod.splits)
    qed
  qed
qed

lemma skipped_result_simps [simp]:
  "file_path (skipped_result fp fname msg) = fp"
  "file_name (skipped_result fp fname msg) = fname"
  "success (skipped_result fp fname msg) = False"
  "original_code (skipped_result fp fname msg) = []"
  "improved_code (skipped_result fp fname msg) = []"
  "report_markdown (skipped_result fp fname msg) = []"
  "error_message (skipped_result fp fname msg) = msg"
  "retry_count (skipped_result fp fname msg) = 0"
  by (simp_all add: skipped_result_def)

lemma skip_messages_nonempty:
  "empty_file_message \<noteq> []" "encoding_error_message \<noteq> []" "read_failure_message e \<noteq> []"
  by (simp_all add: empty_file_message_def encoding_error_message_def read_failure_message_def)

lemma analyze_single_file_path: "file_path (fst (analyze_single_file env fp w)) = fp"
proof (cases "read_file env fp w")
  case (Pair ro w1)
  show ?thesis
  proof (cases ro)
    case (ReadOk content)
    show ?thesis
    proof (cases "strip content = []")
      case True
      with Pair ReadOk show ?thesis by (simp add: analyze_single_file_def)
    next
      case False
      obtain r tr' w' where
        rl: "retry_loop env fp (path_name env fp) (strip content) [0..<MAX_RETRIES] 0 None
               [ReadFile fp] w1 = (r, tr', w')"
        by (metis prod_cases3)
      from retry_loop_fields [OF rl] Pair ReadOk False rl show ?thesis
        by (simp add: analyze_single_file_def)
    qed
  qed (simp_all add: Pair analyze_single_file_def)
qed

lemma analyze_single_file_invariant: "result_invariant (fst (analyze_single_file env fp w))"
proof (cases "read_file env fp w")
  case (Pair ro w1)
  show ?thesis
  proof (cases ro)
    case (ReadOk content)
    show ?thesis
    proof (cases "strip content = []")
      case True
      with Pair ReadOk show ?thesis
        by (simp add: analyze_single_file_def result_invariant_def skip_messages_nonempty)
    next
      case False
      obtain r tr' w' where
        rl: "retry_loop env fp (path_name env fp) (strip content) [0..<MAX_RETRIES] 0 None
               [ReadFile fp] w1 = (r, tr', w')"
        by (metis prod_cases3)
      from retry_loop_fields [OF rl] have "result_invariant r"
        by (auto simp: result_invariant_def)
      with Pair ReadOk False rl show ?thesis
        by (simp add: analyze_single_file_def)
    qed
  qed (simp_all add: Pair analyze_single_file_def result_invariant_def skip_messages_nonempty)
qed

lemma attempt_body_events:
  "attempt_body env original w = (res, evs, w') \<Longrightarrow> \<forall>e \<in> set evs. \<not> callback_event e"
  by (auto simp: attempt_body_def Let_def split: prod.splits sum.splits)

lemma except_events_item: "\<forall>e \<in> set (except_events a x). \<not> callback_event e"
  by (simp add: except_events_def)

lemma retry_loop_trace:
  "retry_loop env fp fname original attempts rc le tr w = (r, tr', w') \<Longrightarrow>
   \<exists>new. tr' = tr @ new \<and> (\<forall>e \<in> set new. \<not> callback_event e)"
proof (induction attempts arbitrary: rc le tr w)
  case Nil
  then show ?case by simp
next
  case (Cons a attempts)
  show ?case
  proof (cases "attempt_body env original w")
    case (fields res evs w1)
    note ev = attempt_body_events [OF fields]
    show ?thesis
    proof (cases res)
      case (Inl e)
      with fields Cons.prems
      have "retry_loop env fp fname original attempts (Suc rc) (Some e)
              (tr @ evs @ except_events a e) w1 = (r, tr', w')"
        by simp
      from Cons.IH [OF this] obtain new where
        new: "tr' = (tr @ evs @ except_events a e) @ new" "\<forall>e \<in> set new. \<not> callback_event e"
        by blast
      show ?thesis
        using new ev except_events_item [of a e]
        by (intro exI [of _ "evs @ except_events a e @ new"]) auto
    next
      case (Inr ok)
      with fields Cons.prems ev show ?thesis by (auto split: prod.splits)
    qed
  qed
qed

lemma single_file_trace:
  "\<forall>e \<in> set (fst (snd (analyze_single_file env fp w))). \<not> callback_event e"
proof (cases "read_file env fp w")
  case (Pair ro w1)
  show ?thesis
  proof (cases ro)
    case (ReadOk content)
    show ?thesis
    proof (cases "strip content = []")
      case True
      with Pair ReadOk show ?thesis by (simp add: analyze_single_file_def)
    next
      case False
      obtain r tr' w' where
        rl: "retry_loop env fp (path_name env fp) (strip content) [0..<MAX_RETRIES] 0 None
               [ReadFile fp] w1 = (r, tr', w')"
        by (metis prod_cases3)
      from retry_loop_trace [OF rl] Pair ReadOk False rl show ?thesis
        by (auto simp: analyze_single_file_def)
    qed
  qed (simp_all add: Pair analyze_single_file_def)
qed

subsection \<open>The loop over the files\<close>

lemma count_result_fields:
  "acc_results (count_result r t) = acc_results t @ [r]"
  "acc_success (count_result r t) = acc_success t + (if classify r = Succeeded then 1 else 0)"
  "acc_skipped (count_result r t) = acc_skipped t + (if classify r = Skipped then 1 else 0)"
  "acc_failure (count_result r t) = acc_failure t + (if classify r = Failed then 1 else 0)"
  by (simp_all add: count_result_def Let_def split: tally.split)

lemma files_loop_acc:
  "files_loop env pc ic len ps t tr c w = (t', tr', c', w') \<Longrightarrow>
   \<exists>rs. acc_results t' = acc_results t @ rs \<and>
        acc_success t' = acc_success t + length (filter (\<lambda>r. classify r = Succeeded) rs) \<and>
        acc_skipped t' = acc_skipped t + length (filter (\<lambda>r. classify r = Skipped) rs) \<and>
        acc_failure t' = acc_failure t + length (filter (\<lambda>r. classify r = Failed) rs) \<and>
        (\<forall>r \<in> set rs. \<exists>fp w0. r = fst (analyze_single_file env fp w0))"
proof (induction ps arbitrary: t tr c w)
  case Nil
  then show ?case by simp
next
  case (Cons p ps)
  obtain i fp where p: "p = (i, fp)" by (cases p)
  obtain cancelled evs1 c1 where chk: "check_cancelled ic c = (cancelled, evs1, c1)"
    by (metis prod_cases3)
  show ?case
  proof (cases cancelled)
    case True
    with Cons.prems p chk show ?thesis by simp
  next
    case False
    obtain evs2 c2 where
      prg: "notify_progress pc i len (path_name env fp) c1 = (evs2, c2)"
      by (metis surj_pair)
    obtain r evs3 w1 where one: "analyze_single_file env fp w = (r, evs3, w1)"
      by (metis prod_cases3)
    from Cons.prems p chk False prg one
    have "files_loop env pc ic len ps (count_result r t) (tr @ evs1 @ evs2 @ evs3) c2 w1
          = (t', tr', c', w')"
      by simp
    from Cons.IH [OF this] obtain rs where
      rs: "acc_results t' = acc_results (count_result r t) @ rs"
          "acc_success t' = acc_success (count_result r t)
             + length (filter (\<lambda>r. classify r = Succeeded) rs)"
          "acc_skipped t' = acc_skipped (count_result r t)
             + length (filter (\<lambda>r. classify r = Skipped) rs)"
          "acc_failure t' = acc_failure (count_result r t)
             + length (filter (\<lambda>r. classify r = Failed) rs)"
          "\<forall>r \<in> set rs. \<exists>fp w0. r = fst (analyze_single_file env fp w0)"
      by blast
    have "r = fst (analyze_single_file env fp w)" by (simp add: one)
    with rs show ?thesis
      by (intro exI [of _ "r # rs"]) (auto simp: count_result_fields)
  qed
qed

lemma tally_partition:
  "length (filter (\<lambda>r. classify r = Succeeded) rs) + length (filter (\<lambda>r. classify r = Failed) rs)
   + length (filter (\<lambda>r. classify r = Skipped) rs) = length rs"
proof (induction rs)
  case Nil
  show ?case by simp
next
  case (Cons r rs)
  then show ?case by (cases "classify r") simp_all
qed

lemma analyze_files_acc:
  "\<exists>rs. results (fst (analyze_files env fps pc ic c w)) = rs \<and>
        success_count (fst (analyze_files env fps pc ic c w))
          = length (filter (\<lambda>r. classify r = Succeeded) rs) \<and>
        skipped_count (fst (analyze_files env fps pc ic c w))
          = length (filter (\<lambda>r. classify r = Skipped) rs) \<and>
        failure_count (fst (analyze_files env fps pc ic c w))
          = length (filter (\<lambda>r. classify r = Failed) rs) \<and>
        (\<forall>r \<in> set rs. \<exists>fp w0. r = fst (analyze_single_file env fp w0))"
proof -
  obtain t tr c' w' where
    fl: "files_loop env pc ic (length fps) (enumerate 0 fps)
           \<lparr>acc_results = [], acc_success = 0, acc_failure = 0, acc_skipped = 0\<rparr> [] c w
         = (t, tr, c', w')"
    by (metis prod_cases4)
  from files_loop_acc [OF fl] show ?thesis
    by (simp add: analyze_files_def fl)
qed

lemma files_loop_without_callbacks:
  assumes never: "\<And>f cs. ic = Some f \<Longrightarrow> \<not> fst (f cs)"
  shows "files_loop env pc ic len ps t tr c w = (t', tr', c', w') \<Longrightarrow>
         files_loop env None None len ps t (filter (\<lambda>e. \<not> callback_event e) tr) c0 w
           = (t', filter (\<lambda>e. \<not> callback_event e) tr', c0, w')"
proof (induction ps arbitrary: t tr c w)
  case Nil
  then show ?case by simp
next
  case (Cons p ps)
  obtain i fp where p: "p = (i, fp)" by (cases p)
  have "\<exists>evs1 c1. check_cancelled ic c = (False, evs1, c1) \<and> (\<forall>e \<in> set evs1. callback_event e)"
  proof (cases ic)
    case None
    then show ?thesis by (simp add: check_cancelled_def)
  next
    case (Some f)
    obtain b c1 where fc: "f c = (b, c1)" by (cases "f c")
    with never [OF Some, of c] have "\<not> b" by simp
    with Some fc show ?thesis by (simp add: check_cancelled_def)
  qed
  then obtain evs1 c1 where chk: "check_cancelled ic c = (False, evs1, c1)"
    and evs1: "\<forall>e \<in> set evs1. callback_event e"
    by blast
  obtain evs2 c2 where
    prg: "notify_progress pc i len (path_name env fp) c1 = (evs2, c2)"
    and evs2: "\<forall>e \<in> set evs2. callback_event e"
    by (cases pc) (auto simp: notify_progress_def)
  obtain r evs3 w1 where one: "analyze_single_file env fp w = (r, evs3, w1)"
    by (metis prod_cases3)
  have evs3: "\<forall>e \<in> set evs3. \<not> callback_event e"
    using single_file_trace [of env fp w] by (simp add: one)
  from Cons.prems p chk prg one
  have "files_loop env pc ic len ps (count_result r t) (tr @ evs1 @ evs2 @ evs3) c2 w1
        = (t', tr', c', w')"
    by simp
  from Cons.IH [OF this]
  have "files_loop env None None len ps (count_result r t)
          (filter (\<lambda>e. \<not> callback_event e) (tr @ evs1 @ evs2 @ evs3)) c0 w1
        = (t', filter (\<lambda>e. \<not> callback_event e) tr', c0, w')" .
  moreover have "filter (\<lambda>e. \<not> callback_event e) (tr @ evs1 @ evs2 @ evs3)
                 = filter (\<lambda>e. \<not> callback_event e) tr @ evs3"
    using evs1 evs2 evs3 by (simp add: filter_empty_conv filter_id_conv)
  ultimately show ?case
    by (simp add: p one check_cancelled_def notify_progress_def)
qed

lemma item_header_callback: "\<forall>e \<in> set (item_header pc i len fname). callback_event e"
  by (simp add: item_header_def split: option.split)

lemma files_loop_cancel_structure:
  "files_loop env pc (Some f) len (enumerate i fps) t tr c w = (t', tr', c', w') \<Longrightarrow>
   \<exists>rs blocks.
     acc_results t' = acc_results t @ rs \<and> length blocks = length rs \<and>
     length rs \<le> length fps \<and> map file_path rs = take (length rs) fps \<and>
     (\<forall>b \<in> set blocks. \<forall>e \<in> set b. \<not> callback_event e) \<and>
     tr' = tr
       @ concat (map (\<lambda>(j, fp, b). item_header pc j len (path_name env fp) @ b)
                   (enumerate i (zip fps blocks)))
       @ (if length rs < length fps then [CancelCheck True, PrintCancelled (i + length rs) len]
          else [])"
proof (induction fps arbitrary: i t tr c w)
  case Nil
  then show ?case by simp
next
  case (Cons fp fps)
  obtain b c1 where fc: "f c = (b, c1)" by (cases "f c")
  show ?case
  proof (cases b)
    case True
    with Cons.prems fc have "t' = t" "tr' = tr @ [CancelCheck True, PrintCancelled i len]"
      by (simp_all add: enumerate_simps check_cancelled_def)
    then show ?thesis
      by (intro exI [of _ "[]"]) simp
  next
    case False
    obtain evs2 c2 where
      prg: "notify_progress pc i len (path_name env fp) c1 = (evs2, c2)"
      and evs2: "CancelCheck False # evs2 = item_header pc i len (path_name env fp)"
      by (cases pc) (auto simp: notify_progress_def item_header_def)
    obtain r evs3 w1 where one: "analyze_single_file env fp w = (r, evs3, w1)"
      by (metis prod_cases3)
    have evs3: "\<forall>e \<in> set evs3. \<not> callback_event e"
      using single_file_trace [of env fp w] by (simp add: one)
    have r: "file_path r = fp"
      using analyze_single_file_path [of env fp w] by (simp add: one)
    from Cons.prems fc False prg one
    have "files_loop env pc (Some f) len (enumerate (Suc i) fps) (count_result r t)
            (tr @ [CancelCheck False] @ evs2 @ evs3) c2 w1 = (t', tr', c', w')"
      by (simp add: enumerate_simps check_cancelled_def)
    from Cons.IH [OF this] obtain rs blocks where
      ih: "acc_results t' = acc_results (count_result r t) @ rs"
          "length blocks = length rs" "length rs \<le> length fps"
          "map file_path rs = take (length rs) fps"
          "\<forall>b \<in> set blocks. \<forall>e \<in> set b. \<not> callback_event e"
          "tr' = (tr @ [CancelCheck False] @ evs2 @ evs3)
             @ concat (map (\<lambda>(j, fp, b). item_header pc j len (path_name env fp) @ b)
                         (enumerate (Suc i) (zip fps blocks)))
             @ (if length rs < length fps
                then [CancelCheck True, PrintCancelled (Suc i + length rs) len] else [])"
      by blast
    show ?thesis
      using ih evs3 r evs2 [symmetric]
      by (intro exI [of _ "r # rs"] exI [of _ "evs3 # blocks"])
        (simp add: count_result_fields)
  qed
qed

subsection \<open>The tally\<close>

lemma str_contains_nonempty: "str_contains skip_marker s \<Longrightarrow> s \<noteq> []"
  by (auto simp: skip_marker_def)

lemma classify_skipped_iff: "classify r = Skipped \<longleftrightarrow> counted_as_skip r"
  using str_contains_nonempty [of "error_message r"]
  by (auto simp: classify_def counted_as_skip_def)

lemma classify_exhausted:
  "\<not> success r \<Longrightarrow> error_message r = exhausted_message (Some e) \<Longrightarrow>
   classify r = (if str_contains skip_marker (exn_str e) then Skipped else Failed)"
  by (simp add: classify_def contains_exhausted_message str_last_error_def)

subsection \<open>Attempts and retries\<close>




lemma except_events_last:
  "except_events 2 e =
     [if is_api_client_error e then PrintAnalysisFailed 2 (exn_str e)
      else PrintUnexpected 2 (exn_str e)]"
  by (simp add: except_events_def MAX_RETRIES_def)

lemma relabel_simps [simp]:
  "read_file (relabel f env) = read_file env"
  "path_name (relabel f env) = path_name env"
  "system_prompt (relabel f env) = system_prompt env"
  "build_review_prompt (relabel f env) code w =
     (case build_review_prompt env code w of (res, w') \<Rightarrow> (map_sum f id res, w'))"
  "client_analyze_code (relabel f env) p w =
     (case client_analyze_code env p w of (res, w') \<Rightarrow> (map_sum f (relabel_tokens f) res, w'))"
  "generate_report (relabel f env) original improved w =
     (case generate_report env original improved w of (res, w') \<Rightarrow> (map_sum f id res, w'))"
  by (simp_all add: relabel_def)








subsection \<open>The retry loop of the client\<close>




lemma streaming_returns_generator:
  "0 < m \<Longrightarrow>
   analyze_code cl prompt True m w = (Inr (Stream (stream_response cl prompt)), [], w)"
proof -
  assume "0 < m"
  then have "[0..<nat m] = 0 # [Suc 0..<nat m]" by (simp add: upt_conv_Cons)
  then show ?thesis by (simp add: analyze_code_def)
qed

lemma no_attempts: "m \<le> 0 \<Longrightarrow> analyze_code cl prompt stream m w = (Inr NoValue, [], w)"
  by (simp add: analyze_code_def)


lemma schedule_starts_with_request:
  "es \<noteq> [] \<Longrightarrow> \<exists>rest. backoff_schedule m k es = SendRequest # rest"
  by (cases es) simp_all


subsection \<open>Runs of the stubs\<close>

lemma attempts_eval: "[0..<MAX_RETRIES] = [0, 1, 2]"
  unfolding MAX_RETRIES_def by (simp add: upt_conv_Cons numeral_3_eq_3)

lemma stub_simps [simp]:
  "read_file (stub_collaborators files beh) fp w = (files fp, w)"
  "path_name (stub_collaborators files beh) fp = fp"
  "system_prompt (stub_collaborators files beh) = [83]"
  "build_review_prompt (stub_collaborators files beh) code w = (Inr code, w)"
  "client_analyze_code (stub_collaborators files beh) prompt w =
     (case beh w of Inl e \<Rightarrow> Inl e | Inr outcome \<Rightarrow> Inr (\<lambda>w'. (outcome, w')), Suc w)"
  "generate_report (stub_collaborators files beh) original improved w = (Inr [35], w)"
  by (simp_all add: stub_collaborators_def)

lemma stub_files_simps:
  "stub_files [65] = ReadOk [65, 123, 125, 10]"
  "stub_files [66] = ReadOk [32, 10]"
  "stub_files [67] = ReadUnicodeDecodeError"
  "stub_files [68] = ReadException [110, 111]"
  by (simp_all add: stub_files_def)

lemma strip_examples:
  "strip [65, 123, 125, 10] = [65, 123, 125]"
  "strip [32, 10] = []"
  by (simp_all add: strip_def is_space_def)

lemma stub_attempt_ok:
  "beh w = Inr (ts, None) \<Longrightarrow>
   attempt_body (stub_collaborators files beh) original w =
     (Inr (concat ts, [35]),
      [BuildPrompt original, AnalyzeCall ([83, 10, 10] @ original),
       GenerateReport original (concat ts)], Suc w)"
  by (simp add: attempt_body_def collect_tokens_def Let_def)

lemma stub_attempt_fail_call:
  "beh w = Inl e \<Longrightarrow>
   attempt_body (stub_collaborators files beh) original w =
     (Inl e, [BuildPrompt original, AnalyzeCall ([83, 10, 10] @ original)], Suc w)"
  by (simp add: attempt_body_def collect_tokens_def)

lemma stub_attempt_fail_stream:
  "beh w = Inr (ts, Some e) \<Longrightarrow>
   attempt_body (stub_collaborators files beh) original w =
     (Inl e, [BuildPrompt original, AnalyzeCall ([83, 10, 10] @ original)], Suc w)"
  by (simp add: attempt_body_def collect_tokens_def)

lemma improved_A:
  "analyze_single_file (stub_collaborators stub_files always_improved) [65] w =
     (\<lparr>file_path = [65], file_name = [65], success = True, original_code = [65, 123, 125],
       improved_code = [73, 77, 80], report_markdown = [35], error_message = [],
       retry_count = 0\<rparr>,
      [ReadFile [65], BuildPrompt [65, 123, 125], AnalyzeCall [83, 10, 10, 65, 123, 125],
       GenerateReport [65, 123, 125] [73, 77, 80]], Suc w)"
  by (simp add: analyze_single_file_def stub_files_simps strip_examples attempts_eval
      stub_attempt_ok [where ts = "[[73, 77], [80]]"] always_improved_def Let_def)

lemma skipped_B:
  "analyze_single_file (stub_collaborators stub_files beh) [66] w =
     (skipped_result [66] [66] empty_file_message, [ReadFile [66]], w)"
  by (simp add: analyze_single_file_def stub_files_simps strip_examples)

lemma classify_skipped_result:
  "str_contains skip_marker msg \<Longrightarrow> msg \<noteq> [] \<Longrightarrow>
   classify (skipped_result fp fname msg) = Skipped"
  by (simp add: classify_def)

lemma classify_success: "success r \<Longrightarrow> classify r = Succeeded"
  by (simp add: classify_def)

lemma classify_examples:
  "classify (skipped_result fp fname empty_file_message) = Skipped"
  "classify (skipped_result fp fname encoding_error_message) = Skipped"
  "classify (skipped_result fp fname (read_failure_message e)) = Skipped"
  by (simp_all add: classify_skipped_result skip_messages_contain_marker skip_messages_nonempty)

lemma scenario_run:
  "fst (analyze_files (stub_collaborators stub_files always_improved) [[65], [66]] None None () 0) =
     \<lparr>total_files = 2, success_count = 1, failure_count = 0, skipped_count = 1,
      results =
        [\<lparr>file_path = [65], file_name = [65], success = True, original_code = [65, 123, 125],
          improved_code = [73, 77, 80], report_markdown = [35], error_message = [],
          retry_count = 0\<rparr>,
         skipped_result [66] [66] empty_file_message]\<rparr>"
  by (simp add: analyze_files_def enumerate_simps check_cancelled_def notify_progress_def
      improved_A skipped_B count_result_def classify_examples classify_success)

lemma exhausted_A:
  "analyze_single_file (stub_collaborators stub_files (always_fails e)) [65] w =
     (\<lparr>file_path = [65], file_name = [65], success = False, original_code = [65, 123, 125],
       improved_code = [], report_markdown = [], error_message = exhausted_message (Some e),
       retry_count = 3\<rparr>,
      [ReadFile [65],
       BuildPrompt [65, 123, 125], AnalyzeCall [83, 10, 10, 65, 123, 125]]
       @ except_events 0 e @
      [BuildPrompt [65, 123, 125], AnalyzeCall [83, 10, 10, 65, 123, 125]]
       @ except_events 1 e @
      [BuildPrompt [65, 123, 125], AnalyzeCall [83, 10, 10, 65, 123, 125]]
       @ except_events 2 e,
      Suc (Suc (Suc w)))"
  by (simp add: analyze_single_file_def stub_files_simps strip_examples attempts_eval
      stub_attempt_fail_call [where e = e] always_fails_def Let_def)

lemma skip_worded_contains: "str_contains skip_marker (exn_str skip_worded_error)"
  by (simp add: skip_worded_error_def skip_marker_def)

lemma exhausted_run:
  "fst (analyze_files (stub_collaborators stub_files (always_fails e)) [[65]] None None () 0) =
     \<lparr>total_files = 1,
      success_count = 0,
      failure_count = (if str_contains skip_marker (exn_str e) then 0 else 1),
      skipped_count = (if str_contains skip_marker (exn_str e) then 1 else 0),
      results =
        [\<lparr>file_path = [65], file_name = [65], success = False, original_code = [65, 123, 125],
          improved_code = [], report_markdown = [], error_message = exhausted_message (Some e),
          retry_count = 3\<rparr>]\<rparr>"
  by (simp add: analyze_files_def enumerate_simps check_cancelled_def notify_progress_def
      exhausted_A count_result_def classify_exhausted)

lemma empty_stream_A:
  "analyze_single_file (stub_collaborators stub_files empty_stream) [65] w =
     (\<lparr>file_path = [65], file_name = [65], success = True, original_code = [65, 123, 125],
       improved_code = [], report_markdown = [35], error_message = [],
       retry_count = 0\<rparr>,
      [ReadFile [65], BuildPrompt [65, 123, 125], AnalyzeCall [83, 10, 10, 65, 123, 125],
       GenerateReport [65, 123, 125] []], Suc w)"
  by (simp add: analyze_single_file_def stub_files_simps strip_examples attempts_eval
      stub_attempt_ok [where ts = "[]"] empty_stream_def Let_def)

lemma stub_load_fails:
  "load_fails (stub_collaborators stub_files beh) [66] w"
  "load_fails (stub_collaborators stub_files beh) [67] w"
  "load_fails (stub_collaborators stub_files beh) [68] w"
  by (simp_all add: load_fails_def stub_files_simps strip_examples)

lemma improved_single:
  "c \<notin> {66, 67, 68} \<Longrightarrow> \<not> is_space c \<Longrightarrow>
   analyze_single_file (stub_collaborators stub_files always_improved) [c] w =
     (\<lparr>file_path = [c], file_name = [c], success = True, original_code = [c, 123, 125],
       improved_code = [73, 77, 80], report_markdown = [35], error_message = [],
       retry_count = 0\<rparr>,
      [ReadFile [c], BuildPrompt [c, 123, 125], AnalyzeCall [83, 10, 10, c, 123, 125],
       GenerateReport [c, 123, 125] [73, 77, 80]], Suc w)"
proof -
  assume c: "c \<notin> {66, 67, 68}" and sp: "\<not> is_space c"
  have rd: "stub_files [c] = ReadOk [c, 123, 125, 10]"
    using c by (simp add: stub_files_def)
  have st: "strip [c, 123, 125, 10] = [c, 123, 125]"
    using sp by (simp add: strip_def) (simp add: is_space_def)
  show ?thesis
    by (simp add: analyze_single_file_def rd st attempts_eval
        stub_attempt_ok [where ts = "[[73, 77], [80]]"] always_improved_def Let_def)
qed

lemma not_space: "\<not> is_space 65" "\<not> is_space 69"
  by (simp_all add: is_space_def)

lemma cancelled_run:
  "analyze_files (stub_collaborators stub_files always_improved) five_files
     (Some record_progress) (Some (cancelled_after 2)) [] 0 =
   (\<lparr>total_files = 5, success_count = 2, failure_count = 0, skipped_count = 0,
     results =
       [\<lparr>file_path = [65], file_name = [65], success = True, original_code = [65, 123, 125],
         improved_code = [73, 77, 80], report_markdown = [35], error_message = [],
         retry_count = 0\<rparr>,
        \<lparr>file_path = [69], file_name = [69], success = True, original_code = [69, 123, 125],
         improved_code = [73, 77, 80], report_markdown = [35], error_message = [],
         retry_count = 0\<rparr>]\<rparr>,
    [CancelCheck False, Progress 0 5 [65],
     ReadFile [65], BuildPrompt [65, 123, 125], AnalyzeCall [83, 10, 10, 65, 123, 125],
     GenerateReport [65, 123, 125] [73, 77, 80],
     CancelCheck False, Progress 1 5 [69],
     ReadFile [69], BuildPrompt [69, 123, 125], AnalyzeCall [83, 10, 10, 69, 123, 125],
     GenerateReport [69, 123, 125] [73, 77, 80],
     CancelCheck True, PrintCancelled 2 5],
    [(0, 5, [65]), (1, 5, [69])], 2)"
  by (simp add: analyze_files_def five_files_def check_cancelled_def notify_progress_def
      cancelled_after_def record_progress_def improved_single not_space count_result_def
      classify_success)






lemma broken_builder_simps [simp]:
  "read_file (broken_builder e) fp w = (stub_files fp, w)"
  "path_name (broken_builder e) fp = fp"
  "build_review_prompt (broken_builder e) code w = (Inl e, w)"
  by (simp_all add: broken_builder_def stub_collaborators_def)


lemma dead_client_simps [simp]:
  "provider (dead_client e) = OpenAI"
  "stream_request (dead_client e) prompt w = (([], Some e), Suc w)"
  "complete_request (dead_client e) prompt w = (Inl e, Suc w)"
  by (simp_all add: dead_client_def)

lemma upt_three: "[0..<3] = [0, 1, 2]"
  by (simp add: upt_conv_Cons numeral_3_eq_3)

lemma dead_client_blocking:
  "analyze_code (dead_client e) prompt False 3 w =
     (Inl (APIConnectionError (failure_message 3 e)),
      [SendRequest, AttemptFailed 0 e, Sleep 1, SendRequest, AttemptFailed 1 e, Sleep 2,
       SendRequest, AttemptFailed 2 e], Suc (Suc (Suc w)))"
  by (simp add: analyze_code_def upt_three get_response_def)

lemma dead_client_drain:
  "drain (Stream (stream_response (dead_client e) prompt)) w = (([], Some e), [SendRequest], Suc w)"
  by (simp add: drain_def stream_response_def)

lemma failure_message_timed_out:
  "failure_message 3 timed_out =
     [70, 97, 105, 108, 101, 100, 32, 116, 111, 32, 103, 101, 116, 32, 76, 76, 77, 32, 114, 101,
      115, 112, 111, 110, 115, 101, 32, 97, 102, 116, 101, 114, 32, 51, 32, 97, 116, 116, 101,
      109, 112, 116, 115, 58, 32, 116, 105, 109, 101, 100, 32, 111, 117, 116]"
  by (simp add: failure_message_def timed_out_def str_int_def str_nat.simps)

lemma batch_on_dead_client_simps [simp]:
  "read_file batch_on_dead_client fp w = (stub_files fp, w)"
  "path_name batch_on_dead_client fp = fp"
  "system_prompt batch_on_dead_client = [83]"
  "build_review_prompt batch_on_dead_client code w = (Inr code, w)"
  "client_analyze_code batch_on_dead_client = client_of (dead_client timed_out)"
  by (simp_all add: batch_on_dead_client_def stub_collaborators_def)

lemma batch_on_dead_client_attempt:
  "attempt_body batch_on_dead_client original w =
     (Inl timed_out, [BuildPrompt original, AnalyzeCall ([83, 10, 10] @ original)], Suc w)"
  by (simp add: attempt_body_def collect_tokens_def client_of_def streaming_returns_generator
      dead_client_drain Let_def)

lemma batch_on_dead_client_A:
  "analyze_single_file batch_on_dead_client [65] w =
     (\<lparr>file_path = [65], file_name = [65], success = False, original_code = [65, 123, 125],
       improved_code = [], report_markdown = [],
       error_message = exhausted_message (Some timed_out), retry_count = 3\<rparr>,
      [ReadFile [65],
       BuildPrompt [65, 123, 125], AnalyzeCall [83, 10, 10, 65, 123, 125]]
       @ except_events 0 timed_out @
      [BuildPrompt [65, 123, 125], AnalyzeCall [83, 10, 10, 65, 123, 125]]
       @ except_events 1 timed_out @
      [BuildPrompt [65, 123, 125], AnalyzeCall [83, 10, 10, 65, 123, 125]]
       @ except_events 2 timed_out,
      Suc (Suc (Suc w)))"
  by (simp add: analyze_single_file_def stub_files_simps strip_examples attempts_eval
      batch_on_dead_client_attempt Let_def)

lemma flaky_client_simps [simp]:
  "provider (flaky_client j) = OpenAI"
  "stream_request (flaky_client j) prompt w =
     (if w < j then ([], Some (OtherException [48 + w])) else ([[111, 107]], None), Suc w)"
  "complete_request (flaky_client j) prompt w =
     (if w < j then Inl (OtherException [48 + w]) else Inr [111, 107], Suc w)"
  by (simp_all add: flaky_client_def)






section \<open>The tallies of a run\<close>

text \<open>
  C5. For every list of files, every behaviour of the collaborators and of the two
  callbacks (present or absent, cancelling early or not), the three counts of the returned
  summary add up to the number of results: every result appended is counted exactly once.
\<close>

theorem analyze_files_counts_add_up:
  "success_count (fst (analyze_files env fps pc ic c w))
   + failure_count (fst (analyze_files env fps pc ic c w))
   + skipped_count (fst (analyze_files env fps pc ic c w))
   = length (results (fst (analyze_files env fps pc ic c w)))"
  using analyze_files_acc [of env fps pc ic c w] tally_partition
  by auto

text \<open>
  The run of the spec's end-to-end scenario: one file analysed, one file skipped.
\<close>

theorem analyze_files_counts_add_up_witness:
  "success_count (fst (analyze_files (stub_collaborators stub_files always_improved)
      [[65], [66]] None None () 0)) = 1 \<and>
   failure_count (fst (analyze_files (stub_collaborators stub_files always_improved)
      [[65], [66]] None None () 0)) = 0 \<and>
   skipped_count (fst (analyze_files (stub_collaborators stub_files always_improved)
      [[65], [66]] None None () 0)) = 1 \<and>
   length (results (fst (analyze_files (stub_collaborators stub_files always_improved)
      [[65], [66]] None None () 0))) = 1 + 0 + 1"
  using analyze_files_counts_add_up
    [of "stub_collaborators stub_files always_improved" "[[65], [66]]" None None "()" 0]
  by (simp add: scenario_run)

text \<open>
  C10. Whether a result that is not a success counts as skipped or as failed is decided
  after the fact, by looking for the marker in its error message: such a result is
  counted as skipped exactly when the message holds the marker, and \<open>skipped_count\<close> is
  the number of such results. So a file whose three attempts all failed is counted as
  skipped, not as failed, when the text of the last error holds the marker: the stub whose
  client raises such an error at every call is an instance.
\<close>

theorem skip_decided_by_substring:
  "(classify r = Skipped \<longleftrightarrow> \<not> success r \<and> str_contains skip_marker (error_message r)) \<and>
   skipped_count (fst (analyze_files env fps pc ic c w)) =
     length (filter (\<lambda>r. \<not> success r \<and> str_contains skip_marker (error_message r))
               (results (fst (analyze_files env fps pc ic c w)))) \<and>
   (\<exists>(stub :: nat collaborators) fp e.
      str_contains skip_marker (exn_str e) \<and>
      results (fst (analyze_files stub [fp] None None () 0)) =
        [fst (analyze_single_file stub fp 0)] \<and>
      \<not> success (fst (analyze_single_file stub fp 0)) \<and>
      retry_count (fst (analyze_single_file stub fp 0)) = MAX_RETRIES \<and>
      error_message (fst (analyze_single_file stub fp 0)) = exhausted_prefix @ exn_str e \<and>
      skipped_count (fst (analyze_files stub [fp] None None () 0)) = 1 \<and>
      failure_count (fst (analyze_files stub [fp] None None () 0)) = 0)"
proof (intro conjI)
  show "classify r = Skipped \<longleftrightarrow> \<not> success r \<and> str_contains skip_marker (error_message r)"
    by (simp add: classify_skipped_iff counted_as_skip_def)
  show "skipped_count (fst (analyze_files env fps pc ic c w)) =
     length (filter (\<lambda>r. \<not> success r \<and> str_contains skip_marker (error_message r))
               (results (fst (analyze_files env fps pc ic c w))))"
    using analyze_files_acc [of env fps pc ic c w]
    by (simp add: classify_skipped_iff counted_as_skip_def)
  show "\<exists>(stub :: nat collaborators) fp e.
      str_contains skip_marker (exn_str e) \<and>
      results (fst (analyze_files stub [fp] None None () 0)) =
        [fst (analyze_single_file stub fp 0)] \<and>
      \<not> success (fst (analyze_single_file stub fp 0)) \<and>
      retry_count (fst (analyze_single_file stub fp 0)) = MAX_RETRIES \<and>
      error_message (fst (analyze_single_file stub fp 0)) = exhausted_prefix @ exn_str e \<and>
      skipped_count (fst (analyze_files stub [fp] None None () 0)) = 1 \<and>
      failure_count (fst (analyze_files stub [fp] None None () 0)) = 0"
    by (rule exI [of _ "stub_collaborators stub_files (always_fails skip_worded_error)"],
        rule exI [of _ "[65]"], rule exI [of _ skip_worded_error])
      (simp add: exhausted_run exhausted_A skip_worded_contains MAX_RETRIES_def
        exhausted_message_def str_last_error_def)
qed

theorem skip_decided_by_substring_witness:
  "classify (skipped_result [66] [66] empty_file_message) = Skipped \<and>
   skipped_count (fst (analyze_files (stub_collaborators stub_files (always_fails skip_worded_error))
      [[65]] None None () 0)) = 1 \<and>
   length (filter (\<lambda>r. \<not> success r \<and> str_contains skip_marker (error_message r))
     (results (fst (analyze_files (stub_collaborators stub_files (always_fails skip_worded_error))
        [[65]] None None () 0)))) = 1"
  using skip_decided_by_substring
    [of "skipped_result [66] [66] empty_file_message"
        "stub_collaborators stub_files (always_fails skip_worded_error)" "[[65]]" None None "()" 0]
  by (simp add: skip_messages_contain_marker exhausted_run skip_worded_contains)

section \<open>The invariant of a result\<close>

text \<open>
  C2, as the source has it. Every result of \<open>_analyze_single_file\<close>, and so every result
  in the summary of a run, has an empty error message when it is a success and a
  non-empty one when it is not. Nothing makes the improved code of a success non-empty:
  it is the concatenation of the tokens received, whatever they are.
\<close>

theorem success_and_error_message:
  "(success (fst (analyze_single_file env fp w)) \<longrightarrow>
      error_message (fst (analyze_single_file env fp w)) = []) \<and>
   (\<not> success (fst (analyze_single_file env fp w)) \<longrightarrow>
      error_message (fst (analyze_single_file env fp w)) \<noteq> []) \<and>
   (\<forall>r \<in> set (results (fst (analyze_files env fps pc ic c w))).
      (success r \<longrightarrow> error_message r = []) \<and> (\<not> success r \<longrightarrow> error_message r \<noteq> []))"
proof -
  have one: "\<And>fp w. result_invariant (fst (analyze_single_file env fp w))"
    by (rule analyze_single_file_invariant)
  have "\<forall>r \<in> set (results (fst (analyze_files env fps pc ic c w))). result_invariant r"
    using analyze_files_acc [of env fps pc ic c w] one by auto
  with one [of fp w] show ?thesis
    by (simp add: result_invariant_def split: if_splits)
qed

theorem success_and_error_message_witness:
  "success (fst (analyze_single_file (stub_collaborators stub_files always_improved) [65] 0)) \<and>
   error_message (fst (analyze_single_file (stub_collaborators stub_files always_improved) [65] 0))
     = [] \<and>
   \<not> success (fst (analyze_single_file (stub_collaborators stub_files always_improved) [66] 0)) \<and>
   error_message (fst (analyze_single_file (stub_collaborators stub_files always_improved) [66] 0))
     \<noteq> [] \<and>
   results (fst (analyze_files (stub_collaborators stub_files always_improved)
      [[65], [66]] None None () 0)) \<noteq> []"
  using success_and_error_message
    [of "stub_collaborators stub_files always_improved" "[65]" 0 "[[65], [66]]" None None "()"]
    success_and_error_message
    [of "stub_collaborators stub_files always_improved" "[66]" 0 "[[65], [66]]" None None "()"]
  by (simp add: improved_A skipped_B scenario_run)

text \<open>
  C2 as stated fails: when the client's stream ends without a token, the file is a success
  whose improved code is the empty string.
\<close>

theorem success_with_empty_improved_code:
  "success (fst (analyze_single_file (stub_collaborators stub_files empty_stream) [65] 0)) \<and>
   improved_code (fst (analyze_single_file (stub_collaborators stub_files empty_stream) [65] 0)) = []"
  by (simp add: empty_stream_A)

section \<open>Files that cannot be loaded\<close>

text \<open>
  C7. When the content of the file is empty once stripped, or reading it raises
  \<open>UnicodeDecodeError\<close> or any other exception, \<open>_analyze_single_file\<close> returns at once a
  result that is not a success, is counted as skipped and has \<open>retry_count = 0\<close>. The
  only collaborator called is the file system: the prompt builder and the client are not
  called, and the world is as the read left it.
\<close>

theorem load_failure_short_circuits:
  assumes "load_fails env fp w"
  shows "\<not> success (fst (analyze_single_file env fp w)) \<and>
         classify (fst (analyze_single_file env fp w)) = Skipped \<and>
         retry_count (fst (analyze_single_file env fp w)) = 0 \<and>
         fst (snd (analyze_single_file env fp w)) = [ReadFile fp] \<and>
         snd (snd (analyze_single_file env fp w)) = snd (read_file env fp w)"
proof (cases "read_file env fp w")
  case (Pair ro w1)
  show ?thesis
  proof (cases ro)
    case (ReadOk content)
    with assms Pair have "strip content = []" by (simp add: load_fails_def)
    with Pair ReadOk show ?thesis
      by (simp add: analyze_single_file_def classify_examples)
  next
    case ReadUnicodeDecodeError
    with Pair show ?thesis by (simp add: analyze_single_file_def classify_examples)
  next
    case (ReadException e)
    with Pair show ?thesis by (simp add: analyze_single_file_def classify_examples)
  qed
qed

theorem load_failure_short_circuits_witness:
  "load_fails (stub_collaborators stub_files always_improved) [66] 0 \<and>
   load_fails (stub_collaborators stub_files always_improved) [67] 0 \<and>
   load_fails (stub_collaborators stub_files always_improved) [68] 0 \<and>
   classify (fst (analyze_single_file (stub_collaborators stub_files always_improved) [66] 0))
     = Skipped \<and>
   retry_count (fst (analyze_single_file (stub_collaborators stub_files always_improved) [67] 0))
     = 0 \<and>
   fst (snd (analyze_single_file (stub_collaborators stub_files always_improved) [68] 0))
     = [ReadFile [68]] \<and>
   snd (snd (analyze_single_file (stub_collaborators stub_files always_improved) [68] 0)) = 0"
  using load_failure_short_circuits [OF stub_load_fails(1) [of always_improved 0]]
    load_failure_short_circuits [OF stub_load_fails(2) [of always_improved 0]]
    load_failure_short_circuits [OF stub_load_fails(3) [of always_improved 0]]
  by (simp add: stub_load_fails)

section \<open>The callbacks\<close>

text \<open>
  C9. A run with a progress callback and a cancellation callback that always answers no
  returns the same summary as a run with neither callback: the same results in the same
  order and the same counts. The collaborators are called in the same way (the events
  other than those of the callbacks are the same) and leave the same world.
\<close>

theorem callbacks_are_optional:
  assumes "\<And>cs. \<not> fst (ic cs)"
  shows "fst (analyze_files env fps (Some pc) (Some ic) c w) = fst (analyze_files env fps None None c0 w) \<and>
         filter (\<lambda>e. \<not> callback_event e) (fst (snd (analyze_files env fps (Some pc) (Some ic) c w)))
           = fst (snd (analyze_files env fps None None c0 w)) \<and>
         snd (snd (snd (analyze_files env fps (Some pc) (Some ic) c w)))
           = snd (snd (snd (analyze_files env fps None None c0 w)))"
proof -
  obtain t tr c' w' where
    fl: "files_loop env (Some pc) (Some ic) (length fps) (enumerate 0 fps)
           \<lparr>acc_results = [], acc_success = 0, acc_failure = 0, acc_skipped = 0\<rparr> [] c w
         = (t, tr, c', w')"
    by (metis prod_cases4)
  have "files_loop env None None (length fps) (enumerate 0 fps)
           \<lparr>acc_results = [], acc_success = 0, acc_failure = 0, acc_skipped = 0\<rparr>
           (filter (\<lambda>e. \<not> callback_event e) []) c0 w
         = (t, filter (\<lambda>e. \<not> callback_event e) tr, c0, w')"
    using assms by (intro files_loop_without_callbacks [OF _ fl]) simp
  with fl show ?thesis by (simp add: analyze_files_def)
qed

theorem callbacks_are_optional_witness:
  "\<not> fst (never_cancelled []) \<and>
   fst (analyze_files (stub_collaborators stub_files always_improved) [[65], [66]]
          (Some record_progress) (Some never_cancelled) [] 0) =
     \<lparr>total_files = 2, success_count = 1, failure_count = 0, skipped_count = 1,
      results =
        [\<lparr>file_path = [65], file_name = [65], success = True, original_code = [65, 123, 125],
          improved_code = [73, 77, 80], report_markdown = [35], error_message = [],
          retry_count = 0\<rparr>,
         skipped_result [66] [66] empty_file_message]\<rparr>"
proof -
  have never: "\<And>cs. \<not> fst (never_cancelled cs)"
    by (simp add: never_cancelled_def)
  from callbacks_are_optional
    [of never_cancelled "stub_collaborators stub_files always_improved" "[[65], [66]]"
      record_progress "[]" 0 "()", OF never]
  show ?thesis
    by (simp add: scenario_run never)
qed

text \<open>
  C6. With a cancellation callback, the events of a run are, for each item processed and
  in the order of the input: one cancellation check that answers no, then the progress
  notification of the item (when a progress callback is given), then the events of
  \<open>_analyze_single_file\<close> for that item, none of which is a call of a callback. The
  results are those of the first items of the input, one per item processed. When items are
  left, the run ends with a check that answers yes followed by the \<open>print\<close> of the
  cancellation: nothing is notified, read or sent to the client for the item at which the
  check answered yes, or for any later item.

  On five items, with a callback that answers yes from its third call on, the results are
  those of the first two items and the client has been called twice.
\<close>

theorem cancellation_checked_before_each_item:
  "\<exists>blocks.
     length blocks = length (results (fst (analyze_files env fps pc (Some ic) c w))) \<and>
     length (results (fst (analyze_files env fps pc (Some ic) c w))) \<le> length fps \<and>
     map file_path (results (fst (analyze_files env fps pc (Some ic) c w)))
       = take (length (results (fst (analyze_files env fps pc (Some ic) c w)))) fps \<and>
     (\<forall>b \<in> set blocks. \<forall>e \<in> set b. \<not> callback_event e) \<and>
     fst (snd (analyze_files env fps pc (Some ic) c w))
       = concat (map (\<lambda>(j, fp, b). item_header pc j (length fps) (path_name env fp) @ b)
                   (enumerate 0 (zip fps blocks)))
         @ (if length (results (fst (analyze_files env fps pc (Some ic) c w))) < length fps
            then [CancelCheck True,
                  PrintCancelled (length (results (fst (analyze_files env fps pc (Some ic) c w))))
                    (length fps)]
            else [])"
proof -
  obtain t tr c' w' where
    fl: "files_loop env pc (Some ic) (length fps) (enumerate 0 fps)
           \<lparr>acc_results = [], acc_success = 0, acc_failure = 0, acc_skipped = 0\<rparr> [] c w
         = (t, tr, c', w')"
    by (metis prod_cases4)
  from files_loop_cancel_structure [OF fl] obtain rs blocks where
    "acc_results t = rs" "length blocks = length rs" "length rs \<le> length fps"
    "map file_path rs = take (length rs) fps"
    "\<forall>b \<in> set blocks. \<forall>e \<in> set b. \<not> callback_event e"
    "tr = concat (map (\<lambda>(j, fp, b). item_header pc j (length fps) (path_name env fp) @ b)
                   (enumerate 0 (zip fps blocks)))
          @ (if length rs < length fps then [CancelCheck True, PrintCancelled (length rs) (length fps)]
             else [])"
    by auto
  then show ?thesis
    by (intro exI [of _ blocks]) (simp add: analyze_files_def fl)
qed

theorem cancellation_checked_before_each_item_witness:
  "map file_path (results (fst (analyze_files (stub_collaborators stub_files always_improved)
      five_files (Some record_progress) (Some (cancelled_after 2)) [] 0))) = [[65], [69]] \<and>
   fst (snd (analyze_files (stub_collaborators stub_files always_improved)
      five_files (Some record_progress) (Some (cancelled_after 2)) [] 0)) =
     [CancelCheck False, Progress 0 5 [65],
      ReadFile [65], BuildPrompt [65, 123, 125], AnalyzeCall [83, 10, 10, 65, 123, 125],
      GenerateReport [65, 123, 125] [73, 77, 80],
      CancelCheck False, Progress 1 5 [69],
      ReadFile [69], BuildPrompt [69, 123, 125], AnalyzeCall [83, 10, 10, 69, 123, 125],
      GenerateReport [69, 123, 125] [73, 77, 80],
      CancelCheck True, PrintCancelled 2 5] \<and>
   snd (snd (analyze_files (stub_collaborators stub_files always_improved)
      five_files (Some record_progress) (Some (cancelled_after 2)) [] 0))
     = ([(0, 5, [65]), (1, 5, [69])], 2) \<and>
   (\<exists>blocks.
      length blocks = length (results (fst (analyze_files
        (stub_collaborators stub_files always_improved) five_files (Some record_progress)
        (Some (cancelled_after 2)) [] 0))) \<and>
      (\<forall>b \<in> set blocks. \<forall>e \<in> set b. \<not> callback_event e) \<and>
      fst (snd (analyze_files (stub_collaborators stub_files always_improved)
         five_files (Some record_progress) (Some (cancelled_after 2)) [] 0))
       = concat (map (\<lambda>(j, fp, b).
                    item_header (Some record_progress) j (length five_files)
                      (path_name (stub_collaborators stub_files always_improved) fp) @ b)
                   (enumerate 0 (zip five_files blocks)))
         @ [CancelCheck True, PrintCancelled 2 (length five_files)])"
proof -
  have "length (results (fst (analyze_files (stub_collaborators stub_files always_improved)
      five_files (Some record_progress) (Some (cancelled_after 2)) [] 0))) = 2"
    by (simp add: cancelled_run)
  moreover have "length five_files = 5"
    by (simp add: five_files_def)
  moreover note cancellation_checked_before_each_item
    [of "stub_collaborators stub_files always_improved" five_files "Some record_progress"
      "cancelled_after 2" "[]" 0]
  ultimately have "\<exists>blocks.
      length blocks = length (results (fst (analyze_files
        (stub_collaborators stub_files always_improved) five_files (Some record_progress)
        (Some (cancelled_after 2)) [] 0))) \<and>
      (\<forall>b \<in> set blocks. \<forall>e \<in> set b. \<not> callback_event e) \<and>
      fst (snd (analyze_files (stub_collaborators stub_files always_improved)
         five_files (Some record_progress) (Some (cancelled_after 2)) [] 0))
       = concat (map (\<lambda>(j, fp, b).
                    item_header (Some record_progress) j (length five_files)
                      (path_name (stub_collaborators stub_files always_improved) fp) @ b)
                   (enumerate 0 (zip five_files blocks)))
         @ [CancelCheck True, PrintCancelled 2 (length five_files)]"
    by auto
  then show ?thesis
    by (simp add: cancelled_run)
qed

section \<open>Retries\<close>







section \<open>The retry loop of the client\<close>




text \<open>
  C1 fails on the code. With the transport down, \<open>analyze_code(prompt, stream=True,
  max_retries=3)\<close> returns a generator at its first attempt, having sent nothing and waited
  for nothing; the error of the transport is raised when the caller iterates the generator,
  after one request, as it is and not as an \<open>APIConnectionError\<close>. The non-streaming
  call on the same transport makes three attempts, waits 1 and 2 seconds between them
  and raises \<open>APIConnectionError\<close>. In the batch analyzer the error so reaches the
  \<open>except Exception\<close> clause of \<open>_analyze_single_file\<close>.
\<close>

theorem streaming_error_escapes_retry_loop:
  "analyze_code (dead_client timed_out) [63] True 3 0 =
     (Inr (Stream (stream_response (dead_client timed_out) [63])), [], 0) \<and>
   drain (Stream (stream_response (dead_client timed_out) [63])) 0 =
     (([], Some timed_out), [SendRequest], 1) \<and>
   analyze_code (dead_client timed_out) [63] False 3 0 =
     (Inl (APIConnectionError (failure_message 3 timed_out)),
      [SendRequest, AttemptFailed 0 timed_out, Sleep 1,
       SendRequest, AttemptFailed 1 timed_out, Sleep 2,
       SendRequest, AttemptFailed 2 timed_out], 3) \<and>
   last (fst (snd (analyze_single_file batch_on_dead_client [65] 0)))
     = PrintUnexpected 2 (exn_str timed_out)"
  by (simp add: streaming_returns_generator dead_client_drain dead_client_blocking
      batch_on_dead_client_A except_events_last timed_out_def)

end
